theory Spec2Isabelle
  imports Main "HOL-Library.Multiset"
begin

section \<open>Paint optimizer: embedding of \<open>src/app/paint-optimizer.js\<close>\<close>

text \<open>
  Conventions of the embedding.
  \<^item> A JavaScript string is a \<open>string\<close>; one \<open>char\<close> stands for one code unit, so
    \<open>length\<close> is the \<open>.length\<close> of the source and \<open>!\<close> its indexing.
  \<^item> The number of colors handed to the search is a natural number. An array is a
    list, and \<open>new Array(len)\<close> throws \<open>RangeError\<close> for a length above \<open>2 ^ 32 - 1\<close>,
    as the language defines it. The size of the heap is not part of the embedding.
  \<^item> A number that the parser produces is a \<open>jsnum\<close>: an integer that is a double,
    \<open>NaN\<close>, or an infinity. \<open>number_of_int\<close> rounds an integer to the nearest double,
    ties to even.
  \<^item> An exception is a value of \<open>js_error\<close> on the left of a sum.
  \<^item> A \<open>Map\<close> is an association list in insertion order; \<open>map_set\<close> is \<open>Map.prototype.set\<close>.
  \<^item> \<open>undefined\<close> is \<open>None\<close>.
\<close>

subsection \<open>Values of the source language\<close>

datatype jsnum = Num int | NaN | PosInfinity | NegInfinity

datatype js_error = RangeError

type_synonym requirement = "jsnum \<times> string"
type_synonym client_requirements = "requirement list"
type_synonym 'k all_requirements = "('k \<times> client_requirements) list"

text \<open>\<open>s[i]\<close> on a string: the one-character string at an index inside the string,
  \<open>undefined\<close> at every other number.\<close>

fun string_index :: "string \<Rightarrow> jsnum \<Rightarrow> string option" where
  "string_index s (Num i) = (if 0 \<le> i \<and> i < int (length s) then Some [s ! nat i] else None)"
| "string_index s NaN = None"
| "string_index s PosInfinity = None"
| "string_index s NegInfinity = None"

text \<open>\<open>String.prototype.repeat\<close>.\<close>

definition string_repeat :: "string \<Rightarrow> nat \<Rightarrow> string" where
  "string_repeat s k = concat (replicate k s)"

text \<open>\<open>Number.prototype.toString\<close> with radix 2, on a non-negative integer.\<close>

definition bit_char :: "nat \<Rightarrow> char" where
  "bit_char d = (if d = 0 then CHR ''0'' else CHR ''1'')"

function number_toString2 :: "nat \<Rightarrow> string" where
  "number_toString2 k =
     (if k < 2 then [bit_char k] else number_toString2 (k div 2) @ [bit_char (k mod 2)])"
  by pat_completeness auto
termination
  by (relation "measure (\<lambda>k. k)") auto

declare number_toString2.simps [simp del]

text \<open>\<open>Array.prototype.sort\<close> with a comparator: a stable sort. An element moves past
  exactly the elements that the comparator puts strictly before it.\<close>

fun array_sort_insert :: "('a \<Rightarrow> 'a \<Rightarrow> int) \<Rightarrow> 'a \<Rightarrow> 'a list \<Rightarrow> 'a list" where
  "array_sort_insert cmp x [] = [x]"
| "array_sort_insert cmp x (y # ys) =
     (if cmp x y \<le> 0 then x # y # ys else y # array_sort_insert cmp x ys)"

definition array_sort :: "('a \<Rightarrow> 'a \<Rightarrow> int) \<Rightarrow> 'a list \<Rightarrow> 'a list" where
  "array_sort cmp xs = foldr (array_sort_insert cmp) xs []"

text \<open>\<open>Map.prototype.set\<close>: an existing key keeps its place and takes the new value,
  a new key goes to the end.\<close>

fun map_set :: "'k \<Rightarrow> 'v \<Rightarrow> ('k \<times> 'v) list \<Rightarrow> ('k \<times> 'v) list" where
  "map_set k v [] = [(k, v)]"
| "map_set k v (p # ps) = (if fst p = k then (k, v) # ps else p # map_set k v ps)"

text \<open>\<open>Array.prototype.shift\<close>: the removed first element (\<open>undefined\<close> on an empty
  array) and the array as it is afterwards.\<close>

fun array_shift :: "'a list \<Rightarrow> 'a option \<times> 'a list" where
  "array_shift [] = (None, [])"
| "array_shift (x # xs) = (Some x, xs)"

text \<open>White space as \<open>\s\<close> and \<open>parseInt\<close> see it, among the code units below 256.\<close>

definition is_js_whitespace :: "char \<Rightarrow> bool" where
  "is_js_whitespace c = ((of_char c :: nat) \<in> {9, 10, 11, 12, 13, 32, 160})"

definition is_decimal_digit :: "char \<Rightarrow> bool" where
  "is_decimal_digit c = (48 \<le> (of_char c :: nat) \<and> (of_char c :: nat) \<le> 57)"

definition decimal_value :: "string \<Rightarrow> nat" where
  "decimal_value ds = foldl (\<lambda>acc c. 10 * acc + (of_char c - 48)) 0 ds"

text \<open>The number of binary digits of a natural number.\<close>

function bit_length :: "nat \<Rightarrow> nat" where
  "bit_length m = (if m = 0 then 0 else Suc (bit_length (m div 2)))"
  by pat_completeness auto
termination
  by (relation "measure (\<lambda>m. m)") auto

declare bit_length.simps [simp del]

text \<open>The double nearest to a natural number: the number itself below \<open>2 ^ 53\<close>, else its
  53 leading binary digits, rounded on the digits dropped with ties to the even
  neighbour; \<open>None\<close> when the rounded value leaves the range of the doubles.\<close>

definition double_of_nat :: "nat \<Rightarrow> nat option" where
  "double_of_nat m =
     (if m < 2 ^ 53 then Some m
      else
        (let dropped = bit_length m - 53;
             kept = m div 2 ^ dropped;
             rest = m mod 2 ^ dropped;
             half = 2 ^ (dropped - 1);
             rounded = (if half < rest \<or> (rest = half \<and> odd kept) then kept + 1 else kept)
                         * 2 ^ dropped
         in if 2 ^ 1024 \<le> rounded then None else Some rounded))"

text \<open>The Number value of a mathematical integer.\<close>

definition number_of_int :: "int \<Rightarrow> jsnum" where
  "number_of_int i =
     (case double_of_nat (nat \<bar>i\<bar>) of
        None \<Rightarrow> if i < 0 then NegInfinity else PosInfinity
      | Some d \<Rightarrow> Num (if i < 0 then - int d else int d))"

text \<open>\<open>parseInt(s, 10)\<close>: leading white space, an optional sign, then the longest run of
  decimal digits; \<open>NaN\<close> when that run is empty, else the Number value of the signed
  integer that the digits write.\<close>

definition parseInt10 :: "string \<Rightarrow> jsnum" where
  "parseInt10 s =
     (let trimmed = dropWhile is_js_whitespace s;
          negative = (case trimmed of [] \<Rightarrow> False | c # _ \<Rightarrow> c = CHR ''-'');
          unsigned = (case trimmed of [] \<Rightarrow> []
                       | c # rest \<Rightarrow> if c = CHR ''-'' \<or> c = CHR ''+'' then rest else trimmed);
          digits = takeWhile is_decimal_digit unsigned
      in if digits = [] then NaN
         else number_of_int
                (if negative then - int (decimal_value digits) else int (decimal_value digits)))"

text \<open>\<open>x - 1\<close> on a number.\<close>

fun jsnum_pred :: "jsnum \<Rightarrow> jsnum" where
  "jsnum_pred (Num i) = number_of_int (i - 1)"
| "jsnum_pred NaN = NaN"
| "jsnum_pred PosInfinity = PosInfinity"
| "jsnum_pred NegInfinity = NegInfinity"

text \<open>\<open>line.split(/\s/)\<close>: a cut at every white-space character, empty pieces kept.\<close>

fun split_whitespace_from :: "string \<Rightarrow> string \<Rightarrow> string list" where
  "split_whitespace_from piece [] = [piece]"
| "split_whitespace_from piece (c # cs) =
     (if is_js_whitespace c then piece # split_whitespace_from [] cs
      else split_whitespace_from (piece @ [c]) cs)"

definition split_whitespace :: "string \<Rightarrow> string list" where
  "split_whitespace line = split_whitespace_from [] line"

subsection \<open>The search\<close>

function createPossibleSolutions_loop :: "nat \<Rightarrow> nat \<Rightarrow> nat list \<Rightarrow> nat list" where
  "createPossibleSolutions_loop possibleSolution numberOfPossibleSolutions possibleSolutions =
     (if possibleSolution < numberOfPossibleSolutions
      then createPossibleSolutions_loop (Suc possibleSolution) numberOfPossibleSolutions
             (possibleSolutions[possibleSolution := possibleSolution])
      else possibleSolutions)"
  by pat_completeness auto
termination
  by (relation "measure (\<lambda>(i, n, a). n - i)") auto

declare createPossibleSolutions_loop.simps [simp del]

text \<open>\<open>new Array(numberOfPossibleSolutions)\<close> throws \<open>RangeError\<close> when the length is
  above \<open>2 ^ 32 - 1\<close>, which is so from 32 colors on. Otherwise the fresh array has that
  length; the loop writes every slot, so what a slot holds before is never read.\<close>

definition createPossibleSolutions :: "nat \<Rightarrow> js_error + nat list" where
  "createPossibleSolutions colors =
     (let numberOfPossibleSolutions = 2 ^ colors
      in if 4294967295 < numberOfPossibleSolutions then Inl RangeError
         else Inr (createPossibleSolutions_loop 0 numberOfPossibleSolutions
                     (replicate numberOfPossibleSolutions 0)))"

definition convertDecimalSolutionToBinary :: "nat \<Rightarrow> string" where
  "convertDecimalSolutionToBinary decimalEncodedSolution = number_toString2 decimalEncodedSolution"

fun characterCount_loop :: "string \<Rightarrow> string \<Rightarrow> nat \<Rightarrow> nat" where
  "characterCount_loop [] characterToCount charactersFound = charactersFound"
| "characterCount_loop (c # rest) characterToCount charactersFound =
     characterCount_loop rest characterToCount
       (if [c] = characterToCount then charactersFound + 1 else charactersFound)"

definition characterCount :: "string \<Rightarrow> string \<Rightarrow> nat" where
  "characterCount str characterToCount = characterCount_loop str characterToCount 0"

definition sortPossibleSolutions :: "string \<Rightarrow> string \<Rightarrow> string \<Rightarrow> int" where
  "sortPossibleSolutions characterToSortBy =
     (\<lambda>first second. int (characterCount first characterToSortBy)
                     - int (characterCount second characterToSortBy))"

definition padPossibleSolution :: "nat \<Rightarrow> string \<Rightarrow> string \<Rightarrow> string" where
  "padPossibleSolution requiredLength paddingCharacter =
     (\<lambda>possibleSolution.
        if length possibleSolution < requiredLength
        then string_repeat paddingCharacter (requiredLength - length possibleSolution)
               @ possibleSolution
        else possibleSolution)"

fun areRequirementsSatisfied :: "string \<Rightarrow> client_requirements \<Rightarrow> bool" where
  "areRequirementsSatisfied possibleSolution [] = False"
| "areRequirementsSatisfied possibleSolution ((columnIndex, requestedType) # rest) =
     (if string_index possibleSolution columnIndex = Some requestedType then True
      else areRequirementsSatisfied possibleSolution rest)"

fun doesSolutionSatisfyAllClients :: "'k all_requirements \<Rightarrow> string \<Rightarrow> bool" where
  "doesSolutionSatisfyAllClients [] possibleSolution = True"
| "doesSolutionSatisfyAllClients ((key, clientRequirements) # rest) possibleSolution =
     (if areRequirementsSatisfied possibleSolution clientRequirements = False then False
      else doesSolutionSatisfyAllClients rest possibleSolution)"

text \<open>An exception of \<open>createPossibleSolutions\<close> ends the call; else the chain of
  \<open>map\<close>, \<open>sort\<close>, \<open>map\<close> and \<open>find\<close> runs on the array it returned.\<close>

definition findCheapestSolution ::
    "nat \<Rightarrow> 'k all_requirements \<Rightarrow> js_error + string option" where
  "findCheapestSolution colors allRequirements =
     (case createPossibleSolutions colors of
        Inl e \<Rightarrow> Inl e
      | Inr possibleSolutions \<Rightarrow>
          Inr (List.find (doesSolutionSatisfyAllClients allRequirements)
                 (map (padPossibleSolution colors ''0'')
                   (array_sort (sortPossibleSolutions ''1'')
                     (map convertDecimalSolutionToBinary possibleSolutions)))))"

subsection \<open>Parsing and formatting\<close>

function parseFileInputLine_loop ::
    "string list \<Rightarrow> nat \<Rightarrow> client_requirements \<Rightarrow> client_requirements" where
  "parseFileInputLine_loop clientRequirementTokens requirementTokens clientRequirements =
     (if requirementTokens < length clientRequirementTokens
      then
        (let colorID = clientRequirementTokens ! requirementTokens;
             colorType = (if requirementTokens + 1 < length clientRequirementTokens
                          then Some (clientRequirementTokens ! (requirementTokens + 1))
                          else None);
             mappedColourID = jsnum_pred (parseInt10 colorID);
             mappedColorType = (if colorType = Some ''G'' then ''0'' else ''1'')
         in parseFileInputLine_loop clientRequirementTokens (requirementTokens + 2)
              (map_set mappedColourID mappedColorType clientRequirements))
      else clientRequirements)"
  by pat_completeness auto
termination
  by (relation "measure (\<lambda>(tokens, i, m). length tokens - i)") auto

declare parseFileInputLine_loop.simps [simp del]

definition parseFileInputLine :: "string \<Rightarrow> client_requirements" where
  "parseFileInputLine line = parseFileInputLine_loop (split_whitespace line) 0 []"

fun parseFileInput_loop :: "string list \<Rightarrow> nat all_requirements \<Rightarrow> nat all_requirements" where
  "parseFileInput_loop [] allRequirements = allRequirements"
| "parseFileInput_loop (line # rest) allRequirements =
     parseFileInput_loop rest
       (map_set (length allRequirements) (parseFileInputLine line) allRequirements)"

record parsed_input =
  parsed_colors :: jsnum
  parsed_allRequirements :: "nat all_requirements"

text \<open>\<open>parseFileInput\<close> changes its argument, so the embedding returns the value of the
  call together with the array \<open>fileLines\<close> as the caller finds it afterwards.\<close>

definition parseFileInput :: "string list \<Rightarrow> parsed_input \<times> string list" where
  "parseFileInput fileLines =
     (case array_shift fileLines of
        (firstLine, remainingLines) \<Rightarrow>
          (\<lparr> parsed_colors =
                parseInt10 (case firstLine of None \<Rightarrow> ''undefined'' | Some l \<Rightarrow> l),
              parsed_allRequirements = parseFileInput_loop remainingLines [] \<rparr>,
           remainingLines))"

fun optimizer_format_loop :: "string \<Rightarrow> string \<Rightarrow> string" where
  "optimizer_format_loop [] transformedSolution = transformedSolution"
| "optimizer_format_loop (encodedColor # rest) transformedSolution =
     optimizer_format_loop rest
       (transformedSolution @ (if [encodedColor] = ''0'' then ''G'' else ''M'') @ '' '')"

text \<open>The last statement of \<open>optimizer\<close>: what it returns for the \<open>cheapestSolution\<close>
  that the search gave.\<close>

definition optimizer_format :: "string option \<Rightarrow> string" where
  "optimizer_format cheapestSolution =
     (case cheapestSolution of
        None \<Rightarrow> ''No solution exists''
      | Some solution \<Rightarrow> optimizer_format_loop solution '''')"

text \<open>The list that \<open>findCheapestSolution\<close> hands to \<open>find\<close>: the candidates in the
  order of the scan.\<close>

definition scannedCandidates :: "nat \<Rightarrow> js_error + string list" where
  "scannedCandidates colors =
     (case createPossibleSolutions colors of
        Inl e \<Rightarrow> Inl e
      | Inr possibleSolutions \<Rightarrow>
          Inr (map (padPossibleSolution colors ''0'')
                 (array_sort (sortPossibleSolutions ''1'')
                   (map convertDecimalSolutionToBinary possibleSolutions))))"

text \<open>The same chain on the numbers \<open>0, \<dots>, 2 ^ n - 1\<close>.\<close>

definition candidate_list :: "nat \<Rightarrow> string list" where
  "candidate_list n =
     map (padPossibleSolution n ''0'')
       (array_sort (sortPossibleSolutions ''1'')
         (map convertDecimalSolutionToBinary [0..<2 ^ n]))"

text \<open>The candidate that the pipeline makes of the number \<open>k\<close>.\<close>

definition candidate_of :: "nat \<Rightarrow> nat \<Rightarrow> string" where
  "candidate_of n k = padPossibleSolution n ''0'' (convertDecimalSolutionToBinary k)"

subsection \<open>The vocabulary of the specification\<close>

text \<open>These definitions follow the words of the specification, not the code; the theorems
  below compare the code with them.\<close>

definition is_bit :: "char \<Rightarrow> bool" where
  "is_bit c = (c = CHR ''0'' \<or> c = CHR ''1'')"

text \<open>Reading a digit string as a number in base 2.\<close>

definition parseBinary :: "string \<Rightarrow> nat" where
  "parseBinary s = foldl (\<lambda>acc c. 2 * acc + (if c = CHR ''1'' then 1 else 0)) 0 s"

text \<open>The cost of an assignment: its number of \<open>1\<close> digits.\<close>

definition cost :: "string \<Rightarrow> nat" where
  "cost assignment = length (filter (\<lambda>c. c = CHR ''1'') assignment)"

text \<open>An assignment over \<open>n\<close> colors: \<open>n\<close> digits, each \<open>0\<close> or \<open>1\<close>.\<close>

definition is_assignment :: "nat \<Rightarrow> string \<Rightarrow> bool" where
  "is_assignment n s = (length s = n \<and> list_all is_bit s)"

text \<open>The candidate space of the search: every assignment over \<open>n\<close> colors, and for
  \<open>n = 0\<close> the one string \<open>0\<close>.\<close>

definition is_candidate :: "nat \<Rightarrow> string \<Rightarrow> bool" where
  "is_candidate n s = (if n = 0 then s = ''0'' else is_assignment n s)"

text \<open>A pair matches an assignment when its required value is the digit at its position.\<close>

definition pair_matches :: "string \<Rightarrow> requirement \<Rightarrow> bool" where
  "pair_matches assignment p = (string_index assignment (fst p) = Some (snd p))"

text \<open>A client is satisfied when any of its pairs matches; a requirement set when every
  client is.\<close>

definition satisfies_client :: "string \<Rightarrow> client_requirements \<Rightarrow> bool" where
  "satisfies_client assignment reqs = (\<exists>p \<in> set reqs. pair_matches assignment p)"

definition satisfies_all :: "string \<Rightarrow> 'k all_requirements \<Rightarrow> bool" where
  "satisfies_all assignment R = (\<forall>c \<in> set (map snd R). satisfies_client assignment c)"

text \<open>A position inside an assignment of width \<open>n\<close>: an integer of \<open>[0, n)\<close>.\<close>

definition position_in_range :: "nat \<Rightarrow> jsnum \<Rightarrow> bool" where
  "position_in_range n pos = (case pos of Num i \<Rightarrow> 0 \<le> i \<and> i < int n | _ \<Rightarrow> False)"

text \<open>The letter of a digit in the output.\<close>

definition digit_letter :: "char \<Rightarrow> string" where
  "digit_letter c = (if c = CHR ''0'' then ''G'' else if c = CHR ''1'' then ''M'' else [])"

section \<open>Properties\<close>

subsection \<open>The requirement satisfier\<close>

lemma areRequirementsSatisfied_iff:
  "areRequirementsSatisfied s reqs \<longleftrightarrow> (\<exists>p \<in> set reqs. pair_matches s p)"
  by (induction reqs) (auto simp: pair_matches_def)

lemma doesSolutionSatisfyAllClients_iff:
  "doesSolutionSatisfyAllClients R s \<longleftrightarrow> (\<forall>c \<in> set (map snd R). areRequirementsSatisfied s c)"
  by (induction R) (auto split: if_splits)

lemma string_index_out_of_range:
  "\<not> position_in_range (length s) pos \<Longrightarrow> string_index s pos = None"
  by (cases pos) (auto simp: position_in_range_def)

text \<open>
  C2. \<open>areRequirementsSatisfied\<close> returns true exactly when some pair of the client has a
  required value equal to the digit of the assignment at the pair's position, so it
  returns false for a client without pairs.
\<close>

theorem areRequirementsSatisfied_any_pair:
  "(areRequirementsSatisfied assignment reqs \<longleftrightarrow>
     (\<exists>p \<in> set reqs. string_index assignment (fst p) = Some (snd p)))
   \<and> areRequirementsSatisfied assignment [] = False"
  by (simp add: areRequirementsSatisfied_iff pair_matches_def)

theorem areRequirementsSatisfied_any_pair_witness:
  "areRequirementsSatisfied ''00000'' [(Num 0, ''1''), (Num 4, ''0'')]
   \<and> (\<exists>p \<in> set [(Num 0, ''1''), (Num 4, ''0'')]. string_index ''00000'' (fst p) = Some (snd p))"
  using areRequirementsSatisfied_any_pair [of "''00000''" "[(Num 0, ''1''), (Num 4, ''0'')]"]
  by simp

text \<open>
  C5. A pair whose position is outside \<open>[0, n)\<close> for an assignment of width \<open>n\<close> never
  matches: indexing there gives \<open>undefined\<close> and no error, and
  \<open>areRequirementsSatisfied\<close> returns what it returns without that pair.
\<close>

theorem areRequirementsSatisfied_out_of_range_pair:
  assumes "\<not> position_in_range (length assignment) pos"
  shows "string_index assignment pos = None
       \<and> \<not> pair_matches assignment (pos, v)
       \<and> areRequirementsSatisfied assignment (before @ (pos, v) # after)
           = areRequirementsSatisfied assignment (before @ after)"
  using assms
  by (auto simp: areRequirementsSatisfied_iff pair_matches_def string_index_out_of_range)

theorem areRequirementsSatisfied_out_of_range_pair_witness:
  "\<not> position_in_range (length ''010'') (Num 3)
   \<and> string_index ''010'' (Num 3) = None
   \<and> areRequirementsSatisfied ''010'' ([(Num 0, ''1'')] @ (Num 3, ''0'') # [(Num 1, ''1'')])
   \<and> areRequirementsSatisfied ''010'' ([(Num 0, ''1'')] @ [(Num 1, ''1'')])"
  using areRequirementsSatisfied_out_of_range_pair
          [of "''010''" "Num 3" "''0''" "[(Num 0, ''1'')]" "[(Num 1, ''1'')]"]
  by (simp add: position_in_range_def)

subsection \<open>The binary encoder\<close>

lemma parseBinary_snoc:
  "parseBinary (s @ [c]) = 2 * parseBinary s + (if c = CHR ''1'' then 1 else 0)"
  by (simp add: parseBinary_def)

lemma toString2_small: "number_toString2 0 = ''0''" "number_toString2 (Suc 0) = ''1''"
  by (simp_all add: number_toString2.simps [of 0] number_toString2.simps [of "Suc 0"] bit_char_def)

lemma toString2_step:
  "\<not> k < 2 \<Longrightarrow> number_toString2 k = number_toString2 (k div 2) @ [bit_char (k mod 2)]"
  by (subst number_toString2.simps) simp

lemma small_cases: "k < 2 \<Longrightarrow> k = 0 \<or> k = Suc 0"
  by arith

lemma parseBinary_toString2: "parseBinary (number_toString2 k) = k"
proof (induction k rule: number_toString2.induct)
  case (1 k)
  show ?case
  proof (cases "k < 2")
    case True
    then show ?thesis
      using small_cases [OF True] by (auto simp: toString2_small parseBinary_def)
  next
    case False
    have "(if bit_char (k mod 2) = CHR ''1'' then 1 else 0) = k mod 2"
      by (auto simp: bit_char_def)
    then show ?thesis
      using 1 [OF False] by (simp add: toString2_step [OF False] parseBinary_snoc)
  qed
qed

lemma bits_toString2: "list_all is_bit (number_toString2 k)"
proof (induction k rule: number_toString2.induct)
  case (1 k)
  have b: "is_bit (bit_char d)" for d
    by (simp add: is_bit_def bit_char_def)
  show ?case
  proof (cases "k < 2")
    case True
    then show ?thesis
      using small_cases [OF True] by (auto simp: toString2_small is_bit_def)
  next
    case False
    then show ?thesis
      using 1 [OF False] b by (simp add: toString2_step [OF False])
  qed
qed

lemma toString2_nonempty: "number_toString2 k \<noteq> []"
  by (cases "k < 2") (auto simp: toString2_small toString2_step dest: small_cases)

lemma toString2_leading:
  "number_toString2 k = ''0'' \<or> hd (number_toString2 k) = CHR ''1''"
proof (induction k rule: number_toString2.induct)
  case (1 k)
  show ?case
  proof (cases "k < 2")
    case True
    then show ?thesis
      using small_cases [OF True] by (auto simp: toString2_small)
  next
    case False
    then have pos: "k div 2 \<noteq> 0" by simp
    have "number_toString2 (k div 2) \<noteq> ''0''"
    proof
      assume "number_toString2 (k div 2) = ''0''"
      then have "parseBinary (number_toString2 (k div 2)) = 0"
        by (simp add: parseBinary_def)
      with pos show False by (simp add: parseBinary_toString2)
    qed
    with 1 [OF False] have "hd (number_toString2 (k div 2)) = CHR ''1''" by simp
    then show ?thesis
      using toString2_nonempty [of "k div 2"] by (simp add: toString2_step [OF False])
  qed
qed

lemma toString2_five: "number_toString2 5 = ''101''"
proof -
  have "number_toString2 5 = number_toString2 2 @ ''1''"
    using toString2_step [of 5] by (simp add: bit_char_def)
  also have "number_toString2 2 = number_toString2 (Suc 0) @ ''0''"
    using toString2_step [of 2] by (simp add: bit_char_def)
  finally show ?thesis by (simp add: toString2_small)
qed

text \<open>
  C6. \<open>convertDecimalSolutionToBinary\<close> gives the base-2 digit string of \<open>k\<close>: digits
  \<open>0\<close> and \<open>1\<close> only, not empty, no leading zero (the string is \<open>0\<close> itself or starts
  with \<open>1\<close>), \<open>0\<close> for 0 and \<open>101\<close> for 5; reading it back in base 2 gives \<open>k\<close>.
\<close>

theorem convertDecimalSolutionToBinary_roundtrip:
  "parseBinary (convertDecimalSolutionToBinary k) = k
   \<and> list_all is_bit (convertDecimalSolutionToBinary k)
   \<and> convertDecimalSolutionToBinary k \<noteq> []
   \<and> (convertDecimalSolutionToBinary k = ''0'' \<or> hd (convertDecimalSolutionToBinary k) = CHR ''1'')
   \<and> convertDecimalSolutionToBinary 0 = ''0''
   \<and> convertDecimalSolutionToBinary 5 = ''101''"
  unfolding convertDecimalSolutionToBinary_def
  using parseBinary_toString2 [of k] bits_toString2 [of k] toString2_nonempty [of k]
    toString2_leading [of k] toString2_small(1) toString2_five
  by blast

subsection \<open>The cost ranker\<close>

lemma characterCount_loop_eq:
  "characterCount_loop s c acc = acc + length (filter (\<lambda>ch. [ch] = c) s)"
  by (induction s arbitrary: acc) auto

lemma characterCount_eq: "characterCount s c = length (filter (\<lambda>ch. [ch] = c) s)"
  by (simp add: characterCount_def characterCount_loop_eq)

lemma array_sort_insert_key:
  "array_sort_insert (sortPossibleSolutions c) x ys = insort_key (\<lambda>s. characterCount s c) x ys"
  by (induction ys) (auto simp: sortPossibleSolutions_def)

lemma array_sort_key:
  "array_sort (sortPossibleSolutions c) xs = sort_key (\<lambda>s. characterCount s c) xs"
  by (induction xs) (simp_all add: array_sort_def sort_key_def array_sort_insert_key)

lemma array_sort_example:
  "array_sort (sortPossibleSolutions ''1'')
        [''0'', ''1'', ''10'', ''11'', ''100'', ''101'', ''110'', ''111'', ''1000'']
       = [''0'', ''1'', ''10'', ''100'', ''1000'', ''11'', ''101'', ''110'', ''111'']"
  by (simp add: array_sort_def sortPossibleSolutions_def characterCount_def)

text \<open>
  C3. The stable sort with the comparator \<open>sortPossibleSolutions c\<close> puts a list in
  ascending order of the count of \<open>c\<close>, keeps the elements of every count \<open>k\<close> in their
  input order, and keeps the elements; the nine encodings of the example come out in the
  order the specification gives.
\<close>

theorem sortPossibleSolutions_stable_ascending:
  "sorted (map (\<lambda>s. characterCount s c) (array_sort (sortPossibleSolutions c) xs))
   \<and> filter (\<lambda>s. characterCount s c = k) (array_sort (sortPossibleSolutions c) xs)
       = filter (\<lambda>s. characterCount s c = k) xs
   \<and> mset (array_sort (sortPossibleSolutions c) xs) = mset xs
   \<and> array_sort (sortPossibleSolutions ''1'')
        [''0'', ''1'', ''10'', ''11'', ''100'', ''101'', ''110'', ''111'', ''1000'']
       = [''0'', ''1'', ''10'', ''100'', ''1000'', ''11'', ''101'', ''110'', ''111'']"
proof -
  have "sorted (map (\<lambda>s. characterCount s c) (array_sort (sortPossibleSolutions c) xs))"
    by (simp add: array_sort_key)
  moreover have "filter (\<lambda>s. characterCount s c = k) (array_sort (sortPossibleSolutions c) xs)
       = filter (\<lambda>s. characterCount s c = k) xs"
    by (simp add: array_sort_key sort_key_stable)
  moreover have "mset (array_sort (sortPossibleSolutions c) xs) = mset xs"
    by (simp add: array_sort_key)
  ultimately show ?thesis
    using array_sort_example by blast
qed

subsection \<open>The candidates of the scan\<close>

lemma createPossibleSolutions_loop_upt:
  "i \<le> N \<Longrightarrow> length a = N \<Longrightarrow> take i a = [0..<i] \<Longrightarrow>
     createPossibleSolutions_loop i N a = [0..<N]"
proof (induction i N a rule: createPossibleSolutions_loop.induct)
  case (1 i N a)
  show ?case
  proof (cases "i < N")
    case True
    have "take (Suc i) (a[i := i]) = take i (a[i := i]) @ [a[i := i] ! i]"
      using True 1(3) by (simp add: take_Suc_conv_app_nth)
    also have "\<dots> = [0..<Suc i]"
      using True 1(3,4) by simp
    finally have "createPossibleSolutions_loop (Suc i) N (a[i := i]) = [0..<N]"
      using 1(1) [OF True] True 1(3) by simp
    then show ?thesis
      using True by (subst createPossibleSolutions_loop.simps) simp
  next
    case False
    with 1(2) have "i = N" by simp
    then show ?thesis
      using 1(3,4) by (subst createPossibleSolutions_loop.simps) simp
  qed
qed

lemma array_length_allowed: "n \<le> 31 \<Longrightarrow> \<not> (4294967295::nat) < 2 ^ n"
proof -
  assume "n \<le> 31"
  then have "(2::nat) ^ n \<le> 2 ^ 31"
    by (intro power_increasing) simp_all
  then show ?thesis by simp
qed

lemma array_length_refused: "\<not> n \<le> 31 \<Longrightarrow> (4294967295::nat) < 2 ^ n"
proof -
  assume "\<not> n \<le> 31"
  then have "32 \<le> n" by simp
  then have "(2::nat) ^ 32 \<le> 2 ^ n"
    by (intro power_increasing) simp_all
  then show ?thesis by simp
qed

lemma createPossibleSolutions_eq:
  "createPossibleSolutions n = (if n \<le> 31 then Inr [0..<2 ^ n] else Inl RangeError)"
  by (simp add: createPossibleSolutions_def createPossibleSolutions_loop_upt
        array_length_allowed array_length_refused)

lemma scannedCandidates_eq:
  "scannedCandidates n = (if n \<le> 31 then Inr (candidate_list n) else Inl RangeError)"
  by (simp add: scannedCandidates_def candidate_list_def createPossibleSolutions_eq)

lemma findCheapestSolution_scan:
  "findCheapestSolution n R =
     (if n \<le> 31 then Inr (List.find (doesSolutionSatisfyAllClients R) (candidate_list n))
      else Inl RangeError)"
  by (simp add: findCheapestSolution_def candidate_list_def createPossibleSolutions_eq)

lemma length_toString2: "k < 2 ^ n \<Longrightarrow> 1 \<le> n \<Longrightarrow> length (number_toString2 k) \<le> n"
proof (induction k arbitrary: n rule: number_toString2.induct)
  case (1 k)
  show ?case
  proof (cases "k < 2")
    case True
    then show ?thesis
      using small_cases [OF True] 1(3) by (auto simp: toString2_small)
  next
    case False
    obtain m where n: "n = Suc m"
      using 1(3) by (cases n) auto
    have "m \<noteq> 0"
      using False 1(2) n by (cases m) auto
    then have m1: "1 \<le> m" by simp
    have "k div 2 < 2 ^ m"
      using 1(2) n by simp
    then have "length (number_toString2 (k div 2)) \<le> m"
      using 1(1) [OF False _ m1] by simp
    then show ?thesis
      using n by (simp add: toString2_step [OF False])
  qed
qed

lemma string_repeat_zero: "string_repeat ''0'' k = replicate k CHR ''0''"
  by (induction k) (simp_all add: string_repeat_def)

lemma pad_eq:
  "padPossibleSolution n ''0'' s = replicate (n - length s) CHR ''0'' @ s"
  by (simp add: padPossibleSolution_def string_repeat_zero)

lemma parseBinary_zeros: "parseBinary (replicate m CHR ''0'' @ s) = parseBinary s"
proof -
  have "foldl (\<lambda>acc c. 2 * acc + (if c = CHR ''1'' then 1 else 0)) (0::nat) (replicate m CHR ''0'') = 0"
    by (induction m) simp_all
  then show ?thesis by (simp add: parseBinary_def)
qed

lemma cost_zeros: "cost (replicate m CHR ''0'' @ s) = cost s"
  by (simp add: cost_def)

lemma characterCount_cost: "characterCount s ''1'' = cost s"
proof -
  have "(\<lambda>ch. [ch] = ''1'') = (\<lambda>c. c = CHR ''1'')" by auto
  then show ?thesis by (simp add: characterCount_eq cost_def)
qed

lemma parseBinary_candidate: "parseBinary (candidate_of n k) = k"
  by (simp add: candidate_of_def pad_eq parseBinary_zeros convertDecimalSolutionToBinary_def
        parseBinary_toString2)

lemma cost_candidate: "cost (padPossibleSolution n ''0'' s) = cost s"
  by (simp add: pad_eq cost_zeros)

lemma bits_zeros: "list_all is_bit (replicate m CHR ''0'')"
  by (induction m) (simp_all add: is_bit_def)

lemma bits_candidate: "list_all is_bit (candidate_of n k)"
  using bits_toString2 [of k] bits_zeros
  by (simp add: candidate_of_def pad_eq convertDecimalSolutionToBinary_def)

lemma length_candidate: "k < 2 ^ n \<Longrightarrow> 1 \<le> n \<Longrightarrow> length (candidate_of n k) = n"
  using length_toString2 [of k n]
  by (simp add: candidate_of_def pad_eq convertDecimalSolutionToBinary_def)

lemma set_array_sort: "set (array_sort (sortPossibleSolutions c) xs) = set xs"
  by (simp add: array_sort_key)

lemma set_candidate_list: "set (candidate_list n) = candidate_of n ` {0..<2 ^ n}"
proof -
  have "set (candidate_list n)
      = padPossibleSolution n ''0'' ` convertDecimalSolutionToBinary ` {0..<2 ^ n}"
    by (simp add: candidate_list_def set_array_sort)
  also have "\<dots> = candidate_of n ` {0..<2 ^ n}"
    by (auto simp: candidate_of_def)
  finally show ?thesis .
qed

lemma assignments_card:
  "finite {s. is_assignment n s} \<and> card {s. is_assignment n s} = 2 ^ n"
proof -
  have eq: "{s. is_assignment n s} = {s. set s \<subseteq> {CHR ''0'', CHR ''1''} \<and> length s = n}"
    by (auto simp: is_assignment_def is_bit_def list_all_iff)
  have "finite {CHR ''0'', CHR ''1''}" by simp
  then have "finite {s. set s \<subseteq> {CHR ''0'', CHR ''1''} \<and> length s = n}"
    and "card {s. set s \<subseteq> {CHR ''0'', CHR ''1''} \<and> length s = n} = card {CHR ''0'', CHR ''1''} ^ n"
    by (rule finite_lists_length_eq, rule card_lists_length_eq)
  then show ?thesis by (simp add: eq numeral_2_eq_2)
qed

lemma candidates_cover:
  assumes "1 \<le> n"
  shows "candidate_of n ` {0..<2 ^ n} = {s. is_assignment n s}"
proof (rule card_subset_eq)
  show "finite {s. is_assignment n s}" by (simp add: assignments_card)
  show "candidate_of n ` {0..<2 ^ n} \<subseteq> {s. is_assignment n s}"
    using assms by (auto simp: is_assignment_def length_candidate bits_candidate)
  have "inj_on (candidate_of n) {0..<2 ^ n}"
    by (rule inj_on_inverseI [where g = parseBinary]) (rule parseBinary_candidate)
  then have "card (candidate_of n ` {0..<2 ^ n}) = 2 ^ n"
    by (simp add: card_image)
  then show "card (candidate_of n ` {0..<2 ^ n}) = card {s. is_assignment n s}"
    by (simp add: assignments_card)
qed

lemma candidate_list_zero: "candidate_list 0 = [''0'']"
  by (simp add: candidate_list_def convertDecimalSolutionToBinary_def
        toString2_small array_sort_def padPossibleSolution_def)

lemma set_candidate_list_spec: "s \<in> set (candidate_list n) \<longleftrightarrow> is_candidate n s"
proof (cases "n = 0")
  case True
  then show ?thesis by (simp add: candidate_list_zero is_candidate_def)
next
  case False
  then have "1 \<le> n" by simp
  from candidates_cover [OF this] show ?thesis
    using False by (simp add: set_candidate_list is_candidate_def)
qed

lemma sorted_candidate_list: "sorted (map cost (candidate_list n))"
proof -
  have "map cost (candidate_list n)
      = map (\<lambda>s. characterCount s ''1'')
          (array_sort (sortPossibleSolutions ''1'')
            (map convertDecimalSolutionToBinary [0..<2 ^ n]))"
    by (simp add: candidate_list_def cost_candidate characterCount_cost comp_def)
  then show ?thesis by (simp add: array_sort_key)
qed

lemma find_first_least:
  "sorted (map f xs) \<Longrightarrow> List.find P xs = Some x \<Longrightarrow> y \<in> set xs \<Longrightarrow> P y \<Longrightarrow> f x \<le> f y"
proof (induction xs)
  case Nil
  then show ?case by simp
next
  case (Cons a xs)
  show ?case
  proof (cases "P a")
    case True
    with Cons.prems show ?thesis by auto
  next
    case False
    with Cons show ?thesis by auto
  qed
qed

lemma find_Some_member: "List.find P xs = Some x \<Longrightarrow> x \<in> set xs \<and> P x"
  by (induction xs) (auto split: if_splits)

lemma satisfies_all_code:
  "doesSolutionSatisfyAllClients R s \<longleftrightarrow> satisfies_all s R"
  by (simp add: doesSolutionSatisfyAllClients_iff satisfies_all_def satisfies_client_def
        areRequirementsSatisfied_iff)

lemma upt_four: "[0..<4] = [0, 1, 2, 3::nat]"
  by (simp add: numeral_eq_Suc)

lemma candidate_list_two: "candidate_list 2 = [''00'', ''01'', ''10'', ''11'']"
  by (simp add: candidate_list_def upt_four
        convertDecimalSolutionToBinary_def number_toString2.simps bit_char_def
        array_sort_def sortPossibleSolutions_def characterCount_def
        padPossibleSolution_def string_repeat_def)

lemma findCheapestSolution_example:
  "findCheapestSolution 2 [(0::nat, [(Num 0, ''0''), (Num 1, ''1'')]), (1, [(Num 0, ''1'')])]
     = Inr (Some ''11'')"
  by (simp add: findCheapestSolution_scan candidate_list_two)

subsection \<open>The cheapest-solution search\<close>

text \<open>
  C1, within the limit on the length of an array. For every \<open>n\<close> from 0 to 31 \<open>findCheapestSolution\<close> returns: it returns
  \<open>undefined\<close> exactly when no candidate of the \<open>2 ^ n\<close> candidates satisfies every
  client, and an assignment that it returns is a candidate, satisfies every client, and no
  candidate that satisfies every client has fewer \<open>1\<close> digits. From 32 colors on the call
  throws \<open>RangeError\<close>.
\<close>

theorem findCheapestSolution_minimal_cost:
  "(n \<le> 31 \<longrightarrow>
      (\<exists>r. findCheapestSolution n R = Inr r)
      \<and> (findCheapestSolution n R = Inr None
            \<longleftrightarrow> \<not> (\<exists>t. is_candidate n t \<and> satisfies_all t R))
      \<and> (findCheapestSolution n R = Inr (Some s) \<longrightarrow>
            is_candidate n s \<and> satisfies_all s R
            \<and> (\<forall>t. is_candidate n t \<and> satisfies_all t R \<longrightarrow> cost s \<le> cost t)))
   \<and> (32 \<le> n \<longrightarrow> findCheapestSolution n R = Inl RangeError)"
proof -
  have large: "findCheapestSolution n R = Inl RangeError" if "32 \<le> n"
    using that by (simp add: findCheapestSolution_scan)
  have returns: "\<exists>r. findCheapestSolution n R = Inr r" if "n \<le> 31"
    using that by (simp add: findCheapestSolution_scan)
  have none: "findCheapestSolution n R = Inr None
      \<longleftrightarrow> \<not> (\<exists>t. is_candidate n t \<and> satisfies_all t R)" if "n \<le> 31"
    using that
    by (simp add: findCheapestSolution_scan find_None_iff set_candidate_list_spec
          satisfies_all_code)
  have some: "is_candidate n s \<and> satisfies_all s R
        \<and> (\<forall>t. is_candidate n t \<and> satisfies_all t R \<longrightarrow> cost s \<le> cost t)"
    if "n \<le> 31" and "findCheapestSolution n R = Inr (Some s)"
  proof -
    from that
    have found: "List.find (doesSolutionSatisfyAllClients R) (candidate_list n) = Some s"
      by (simp add: findCheapestSolution_scan)
    from find_Some_member [OF found]
    have "is_candidate n s" and "satisfies_all s R"
      by (simp_all add: set_candidate_list_spec satisfies_all_code)
    moreover have "cost s \<le> cost t" if "is_candidate n t \<and> satisfies_all t R" for t
      using find_first_least [OF sorted_candidate_list found, of t] that
      by (simp add: set_candidate_list_spec satisfies_all_code)
    ultimately show ?thesis
      by blast
  qed
  from large returns none some show ?thesis by blast
qed

theorem findCheapestSolution_minimal_cost_witness:
  "(2::nat) \<le> 31
   \<and> findCheapestSolution 2 [(0::nat, [(Num 0, ''1''), (Num 1, ''1'')])] = Inr (Some ''01'')
   \<and> is_candidate 2 ''01''
   \<and> satisfies_all ''01'' [(0::nat, [(Num 0, ''1''), (Num 1, ''1'')])]
   \<and> is_candidate 2 ''11''
   \<and> satisfies_all ''11'' [(0::nat, [(Num 0, ''1''), (Num 1, ''1'')])]
   \<and> cost ''01'' \<le> cost ''11''"
proof -
  have small: "(2::nat) \<le> 31" by simp
  have found: "findCheapestSolution 2 [(0::nat, [(Num 0, ''1''), (Num 1, ''1'')])]
      = Inr (Some ''01'')"
    by (simp add: findCheapestSolution_scan candidate_list_two)
  have other: "is_candidate 2 ''11''
      \<and> satisfies_all ''11'' [(0::nat, [(Num 0, ''1''), (Num 1, ''1'')])]"
    by (simp add: is_candidate_def is_assignment_def is_bit_def satisfies_all_def
          satisfies_client_def pair_matches_def)
  from findCheapestSolution_minimal_cost
         [of 2 "[(0::nat, [(Num 0, ''1''), (Num 1, ''1'')])]" "''01''"] small found other
  show ?thesis by blast
qed

text \<open>
  C1 does not extend to 32 colors: the string of 32 zeros is a candidate and
  satisfies every client of the empty requirement set, yet the call returns no assignment,
  it throws \<open>RangeError\<close>.
\<close>

theorem findCheapestSolution_minimal_cost_counterexample:
  "is_candidate 32 (replicate 32 CHR ''0'')
   \<and> satisfies_all (replicate 32 CHR ''0'') ([] :: nat all_requirements)
   \<and> findCheapestSolution 32 ([] :: nat all_requirements) = Inl RangeError"
  by (simp add: is_candidate_def is_assignment_def bits_zeros satisfies_all_def
        findCheapestSolution_scan)

text \<open>
  C4, within the limit on the length of an array. For every \<open>n\<close> from 0 to 31, with a client that has no pair in the
  requirement set, \<open>findCheapestSolution\<close> returns \<open>undefined\<close>.
\<close>

theorem findCheapestSolution_empty_client_absent:
  assumes "n \<le> 31" and "(k, []) \<in> set R"
  shows "findCheapestSolution n R = Inr None"
proof -
  have "\<not> doesSolutionSatisfyAllClients R s" for s
    using assms(2) by (force simp: doesSolutionSatisfyAllClients_iff)
  then show ?thesis
    using assms(1) by (simp add: findCheapestSolution_scan find_None_iff)
qed

theorem findCheapestSolution_empty_client_absent_witness:
  "(2::nat) \<le> 31
   \<and> (1::nat, []) \<in> set [(0, [(Num 0, ''0'')]), (1, [])]
   \<and> findCheapestSolution 2 [(0::nat, [(Num 0, ''0'')]), (1, [])] = Inr None"
  using findCheapestSolution_empty_client_absent
          [of 2 "1::nat" "[(0, [(Num 0, ''0'')]), (1, [])]"]
  by simp

text \<open>
  C4 does not extend to 32 colors: the requirement set has a client without pairs,
  and the call does not return \<open>undefined\<close>, it throws \<open>RangeError\<close> before any client is
  read.
\<close>

theorem findCheapestSolution_empty_client_absent_counterexample:
  "(0::nat, []) \<in> set [(0::nat, [])]
   \<and> findCheapestSolution 32 [(0::nat, [])] = Inl RangeError
   \<and> findCheapestSolution 32 [(0::nat, [])] \<noteq> Inr None"
  by (simp add: findCheapestSolution_scan)

text \<open>
  C7. Two requirement sets with the same set of client requirements give the same result,
  whatever their keys (of any two types), the order of their clients and the number of
  times a client requirement occurs.
\<close>

theorem findCheapestSolution_keys_order_irrelevant:
  assumes "set (map snd A) = set (map snd B)"
  shows "findCheapestSolution n A = findCheapestSolution n B"
proof -
  have "doesSolutionSatisfyAllClients A = doesSolutionSatisfyAllClients B"
    using assms by (auto simp: fun_eq_iff doesSolutionSatisfyAllClients_iff simp del: set_map)
  then show ?thesis by (simp add: findCheapestSolution_scan)
qed

theorem findCheapestSolution_keys_order_irrelevant_witness:
  "set (map snd [(0::nat, [(Num 0, ''0''), (Num 1, ''1'')]), (1, [(Num 0, ''1'')])])
     = set (map snd [(''b'', [(Num 0, ''1'')]), (''a'', [(Num 0, ''0''), (Num 1, ''1'')]),
                     (''c'', [(Num 0, ''1'')])])
   \<and> findCheapestSolution 2 [(0::nat, [(Num 0, ''0''), (Num 1, ''1'')]), (1, [(Num 0, ''1'')])]
     = findCheapestSolution 2 [(''b'', [(Num 0, ''1'')]), (''a'', [(Num 0, ''0''), (Num 1, ''1'')]),
                     (''c'', [(Num 0, ''1'')])]
   \<and> findCheapestSolution 2 [(''b'', [(Num 0, ''1'')]), (''a'', [(Num 0, ''0''), (Num 1, ''1'')]),
                     (''c'', [(Num 0, ''1'')])] = Inr (Some ''11'')"
proof -
  have same: "set (map snd [(0::nat, [(Num 0, ''0''), (Num 1, ''1'')]), (1, [(Num 0, ''1'')])])
     = set (map snd [(''b'', [(Num 0, ''1'')]), (''a'', [(Num 0, ''0''), (Num 1, ''1'')]),
                     (''c'', [(Num 0, ''1'')])])"
    by auto
  from findCheapestSolution_keys_order_irrelevant [OF same, of 2] same
    findCheapestSolution_example
  show ?thesis by simp
qed

text \<open>
  C9. For \<open>n \<ge> 1\<close> every candidate of the scan, and so every assignment that
  \<open>findCheapestSolution\<close> returns, has length \<open>n\<close> and only the digits \<open>0\<close> and \<open>1\<close>.
  For \<open>n = 0\<close> the scan has the one candidate \<open>0\<close>, so a returned solution has length 1.
  There is a scan for every \<open>n\<close> up to 31.
\<close>

theorem scannedCandidates_width:
  "(1 \<le> n \<and> scannedCandidates n = Inr cs \<longrightarrow>
      (\<forall>c \<in> set cs. length c = n \<and> list_all is_bit c))
   \<and> (1 \<le> n \<and> findCheapestSolution n R = Inr (Some s) \<longrightarrow> length s = n \<and> list_all is_bit s)
   \<and> scannedCandidates 0 = Inr [''0'']
   \<and> (findCheapestSolution 0 R = Inr (Some s) \<longrightarrow> s = ''0'' \<and> length s = 1)
   \<and> (n \<le> 31 \<longrightarrow> scannedCandidates n = Inr (candidate_list n))"
proof -
  have a: "length c = n \<and> list_all is_bit c" if "1 \<le> n" "c \<in> set (candidate_list n)" for c
    using that by (auto simp: set_candidate_list_spec is_candidate_def is_assignment_def)
  have a': "\<forall>c \<in> set cs. length c = n \<and> list_all is_bit c"
    if "1 \<le> n" "scannedCandidates n = Inr cs"
    using that a by (auto simp: scannedCandidates_eq split: if_splits)
  have b: "s \<in> set (candidate_list m)" if "findCheapestSolution m R = Inr (Some s)" for m
    using that find_Some_member [of "doesSolutionSatisfyAllClients R" "candidate_list m" s]
    by (simp add: findCheapestSolution_scan split: if_splits)
  have c: "length s = n \<and> list_all is_bit s"
    if "1 \<le> n" "findCheapestSolution n R = Inr (Some s)"
    using that a b [of n] by blast
  have d: "s = ''0'' \<and> length s = 1" if "findCheapestSolution 0 R = Inr (Some s)"
    using b [OF that] by (simp add: candidate_list_zero)
  have e: "scannedCandidates 0 = Inr [''0'']"
    by (simp add: scannedCandidates_eq candidate_list_zero)
  have f: "scannedCandidates n = Inr (candidate_list n)" if "n \<le> 31"
    using that by (simp add: scannedCandidates_eq)
  from a' c d e f show ?thesis by blast
qed

theorem scannedCandidates_width_witness:
  "(1::nat) \<le> 2 \<and> (2::nat) \<le> 31
   \<and> scannedCandidates 2 = Inr [''00'', ''01'', ''10'', ''11'']
   \<and> findCheapestSolution 2 [(0::nat, [(Num 0, ''0''), (Num 1, ''1'')]), (1, [(Num 0, ''1'')])]
       = Inr (Some ''11'')
   \<and> length ''11'' = 2 \<and> list_all is_bit ''11''
   \<and> findCheapestSolution 0 ([] :: nat all_requirements) = Inr (Some ''0'')"
  using scannedCandidates_width
          [of 2 "[''00'', ''01'', ''10'', ''11'']"
              "[(0::nat, [(Num 0, ''0''), (Num 1, ''1'')]), (1, [(Num 0, ''1'')])]" "''11''"]
        findCheapestSolution_example
  by (simp add: candidate_list_two findCheapestSolution_scan candidate_list_zero)

subsection \<open>Parsing and formatting\<close>

lemma optimizer_format_loop_eq:
  "optimizer_format_loop s acc
     = acc @ concat (map (\<lambda>c. (if c = CHR ''0'' then ''G'' else ''M'') @ '' '') s)"
  by (induction s arbitrary: acc) auto

lemma optimizer_format_loop_letters:
  "list_all is_bit s \<Longrightarrow>
     optimizer_format_loop s acc = acc @ concat (map (\<lambda>c. digit_letter c @ '' '') s)"
  by (induction s arbitrary: acc) (auto simp: is_bit_def digit_letter_def)

text \<open>
  C8. The last step of \<open>optimizer\<close> turns a solution into its letters, \<open>G\<close> for the
  digit \<open>0\<close> and \<open>M\<close> for the digit \<open>1\<close>, each followed by one space, so \<open>00001\<close>
  becomes \<open>G G G G M \<close>; it turns \<open>undefined\<close> into \<open>No solution exists\<close>.
\<close>

theorem optimizer_format_letters:
  "optimizer_format None = ''No solution exists''
   \<and> (list_all is_bit solution \<longrightarrow>
        optimizer_format (Some solution) = concat (map (\<lambda>c. digit_letter c @ '' '') solution))
   \<and> digit_letter CHR ''0'' = ''G'' \<and> digit_letter CHR ''1'' = ''M''
   \<and> optimizer_format (Some ''00001'') = ''G G G G M ''"
proof -
  have "optimizer_format (Some solution) = concat (map (\<lambda>c. digit_letter c @ '' '') solution)"
    if "list_all is_bit solution"
    using optimizer_format_loop_letters [OF that, of "[]"]
    by (simp add: optimizer_format_def)
  then show ?thesis
    by (simp add: optimizer_format_def digit_letter_def)
qed

theorem optimizer_format_letters_witness:
  "list_all is_bit ''00001''
   \<and> optimizer_format (Some ''00001'')
       = concat (map (\<lambda>c. digit_letter c @ '' '') ''00001'')
   \<and> concat (map (\<lambda>c. digit_letter c @ '' '') ''00001'') = ''G G G G M ''"
  using optimizer_format_letters [of "''00001''"]
  by (simp add: is_bit_def digit_letter_def)

text \<open>
  C10. \<open>parseFileInput\<close> changes the array it is given: the first element, the line of
  the color count, is taken off, so the caller's array is afterwards the rest of the
  lines, one element shorter, and not what it was.
\<close>

theorem parseFileInput_shifts_argument:
  assumes "fileLines \<noteq> []"
  shows "snd (parseFileInput fileLines) = tl fileLines
       \<and> length (snd (parseFileInput fileLines)) + 1 = length fileLines
       \<and> snd (parseFileInput fileLines) \<noteq> fileLines
       \<and> parsed_colors (fst (parseFileInput fileLines)) = parseInt10 (hd fileLines)"
  using assms by (cases fileLines) (auto simp: parseFileInput_def)

theorem parseFileInput_shifts_argument_witness:
  "[''5'', ''1 M 3 G 5 G'', ''2 G 3 M 4 G'', ''5 M''] \<noteq> []
   \<and> snd (parseFileInput [''5'', ''1 M 3 G 5 G'', ''2 G 3 M 4 G'', ''5 M''])
       = [''1 M 3 G 5 G'', ''2 G 3 M 4 G'', ''5 M'']
   \<and> parsed_colors (fst (parseFileInput [''5'', ''1 M 3 G 5 G'', ''2 G 3 M 4 G'', ''5 M'']))
       = Num 5"
  using parseFileInput_shifts_argument [of "[''5'', ''1 M 3 G 5 G'', ''2 G 3 M 4 G'', ''5 M'']"]
  by (simp add: parseInt10_def is_js_whitespace_def is_decimal_digit_def decimal_value_def
        number_of_int_def double_of_nat_def)

end
